theory Spec2Isabelle
  imports Main
begin

section \<open>Arguments\<close>

text \<open>
  \<^verbatim>\<open>SingleArgument = string | number | boolean | GameElement | Player\<close> and
  \<^verbatim>\<open>Argument = SingleArgument | SingleArgument[]\<close> (action.ts). JavaScript values are
  dynamically typed, so one datatype holds them all: the casts of the source
  (\<^verbatim>\<open>possibleOptions as SingleArgument[]\<close>, \<^verbatim>\<open>options as GameElement[]\<close>) do nothing at
  run time and do nothing here. Board elements and players are objects compared by
  identity: they are handles. Numbers are the integers (the selections below count
  and enumerate integers). \<open>Obj\<close> is a plain object with its own properties: the
  argument record is one, and action.ts passes it to \<^verbatim>\<open>resolve\<close> as a value.
\<close>

datatype argument =
    Str string
  | Num int
  | Bool bool
  | Elem nat
  | Plyr nat
  | Arr "argument list"
  | Obj "string \<Rightarrow> argument option"

text \<open>
  \<^verbatim>\<open>Record<string, Argument>\<close>: the named arguments of a move, as the map from its own
  property names to their values. \<^verbatim>\<open>{...args, [key]: option}\<close> is \<open>args(key \<mapsto> option)\<close>
  and \<^verbatim>\<open>args[key]\<close> is \<open>args key\<close> (\<open>None\<close> for \<^verbatim>\<open>undefined\<close>).
\<close>

type_synonym args = "string \<rightharpoonup> argument"

text \<open>
  A property key made from a value that may be \<^verbatim>\<open>undefined\<close>: JavaScript converts the
  key to a string, and \<^verbatim>\<open>undefined\<close> to the string \<^verbatim>\<open>'undefined'\<close>, both in
  \<^verbatim>\<open>{...args, [selection.name]: option}\<close> and in \<^verbatim>\<open>s.name in args\<close>.
\<close>

definition propertyKey :: "string option \<Rightarrow> string" where
  "propertyKey name = (case name of None \<Rightarrow> ''undefined'' | Some n \<Rightarrow> n)"

text \<open>
  The operator \<^verbatim>\<open>key in args\<close> holds of the record's own properties and of those it
  inherits. The records here are object literals, whose prototype is
  \<^verbatim>\<open>Object.prototype\<close>, with these properties (ECMAScript, annex B included).
\<close>

definition objectPrototype :: "string list" where
  "objectPrototype =
     [''constructor'', ''hasOwnProperty'', ''isPrototypeOf'', ''propertyIsEnumerable'',
      ''toLocaleString'', ''toString'', ''valueOf'', ''__proto__'', ''__defineGetter__'',
      ''__defineSetter__'', ''__lookupGetter__'', ''__lookupSetter__'']"

definition hasProperty :: "string \<Rightarrow> args \<Rightarrow> bool" where
  "hasProperty key args = (key \<in> set objectPrototype \<or> args key \<noteq> None)"

section \<open>Exceptions\<close>

text \<open>
  What the code below throws: an \<^verbatim>\<open>Error\<close> with its message, or the \<^verbatim>\<open>TypeError\<close> that
  JavaScript itself raises (its message is the engine's). A call returns a value,
  throws, or overflows: the recursion of the resolution is bounded by the depth of the
  call stack, which is the \<open>fuel\<close> of the functions below, and JavaScript ends a
  recursion that is deeper with \<^verbatim>\<open>RangeError: Maximum call stack size exceeded\<close>. A
  call that overflows whatever the fuel does not return.
\<close>

datatype error = Error string | TypeError

datatype 'a outcome = Returns 'a | Throws error | Overflows

section \<open>Selection (selection.ts)\<close>

text \<open>
  A field of a Selection is a constant or a function, \<^verbatim>\<open>(...a: Argument[]) => T\<close>, of the
  arguments it is called with.
\<close>

datatype 'a field = Const 'a | Computed "argument list \<Rightarrow> 'a"

fun eval :: "argument list \<Rightarrow> 'a field \<Rightarrow> 'a" where
  "eval args (Const c) = c"
| "eval args (Computed f) = f args"

fun isFunction :: "'a field option \<Rightarrow> bool" where
  "isFunction (Some (Computed f)) = True"
| "isFunction _ = False"

text \<open>
  \<^verbatim>\<open>choices\<close> is an array or a record whose keys are the values
  (\<^verbatim>\<open>this.choices instanceof Array ? this.choices : Object.keys(this.choices)\<close>).
\<close>

datatype choiceSet = ChoiceList "argument list" | ChoiceRecord "(string \<times> argument) list"

fun choiceValues :: "choiceSet \<Rightarrow> argument list" where
  "choiceValues (ChoiceList xs) = xs"
| "choiceValues (ChoiceRecord kvs) = map (\<lambda>kv. Str (fst kv)) kvs"

datatype kind = Board | Choices | Text | Number | Button

text \<open>
  \<^verbatim>\<open>BoardQueryMulti = string | T[] | ((...a: Argument[]) => T[])\<close>: the three forms of
  \<^verbatim>\<open>boardChoices\<close>.
\<close>

datatype boardQuery =
    QueryString string
  | QueryArray "argument list"
  | QueryFunction "argument list \<Rightarrow> argument list"

text \<open>
  The class \<^verbatim>\<open>Selection\<close>. \<^verbatim>\<open>name\<close> is the property that action.ts reads as
  \<^verbatim>\<open>selection.name\<close>: the class of selection.ts declares no such property and its
  constructor assigns none, so it is \<^verbatim>\<open>undefined\<close> (\<open>None\<close>) on an object that comes from
  the constructor, and a string once one has been assigned to it. \<^verbatim>\<open>prompt\<close> and
  \<^verbatim>\<open>initial\<close> are kept because \<^verbatim>\<open>isResolved\<close> inspects them; their text is presentation
  data that no decision below reads, like \<^verbatim>\<open>clientContext\<close>, which is left out.
  \<^verbatim>\<open>regexp\<close> is the matcher \<^verbatim>\<open>arg.match(s.regexp)\<close>.
\<close>

record selection =
  sel_name :: "string option"
  sel_type :: kind
  sel_prompt :: "string field option"
  sel_skipIfOnlyOne :: bool
  sel_skipIf :: "bool field option"
  sel_expand :: bool
  sel_choices :: "choiceSet field option"
  sel_boardChoices :: "boardQuery option"
  sel_min :: "int field option"
  sel_max :: "int field option"
  sel_initial :: "argument field option"
  sel_regexp :: "(string \<Rightarrow> bool) option"
  sel_value :: "argument option"

text \<open>
  \<^verbatim>\<open>ResolvedSelection\<close>: the same fields with every function evaluated. The board choices
  are then an array of elements, or still the string of a query given as a string,
  which nothing evaluates.
\<close>

datatype boardChoices = Elements "argument list" | Unresolved string

record resolvedSelection =
  r_name :: "string option"
  r_type :: kind
  r_skipIfOnlyOne :: bool
  r_skipIf :: "bool option"
  r_expand :: bool
  r_choices :: "choiceSet option"
  r_boardChoices :: "boardChoices option"
  r_min :: "int option"
  r_max :: "int option"
  r_regexp :: "(string \<Rightarrow> bool) option"
  r_value :: "argument option"

fun isFunctionQuery :: "boardQuery option \<Rightarrow> bool" where
  "isFunctionQuery (Some (QueryFunction f)) = True"
| "isFunctionQuery _ = False"

definition isResolved :: "selection \<Rightarrow> bool" where
  "isResolved this =
     (\<not> isFunction (sel_prompt this) \<and>
      \<not> isFunction (sel_min this) \<and>
      \<not> isFunction (sel_max this) \<and>
      \<not> isFunction (sel_initial this) \<and>
      \<not> isFunction (sel_skipIf this) \<and>
      \<not> isFunction (sel_choices this) \<and>
      \<not> isFunctionQuery (sel_boardChoices this))"

text \<open>
  The fields of a Selection with each function field applied to the arguments and the
  others as they are.
\<close>

fun queried :: "argument list \<Rightarrow> boardQuery \<Rightarrow> boardChoices" where
  "queried args (QueryString q) = Unresolved q"
| "queried args (QueryArray xs) = Elements xs"
| "queried args (QueryFunction f) = Elements (f args)"

definition contents :: "selection \<Rightarrow> argument list \<Rightarrow> resolvedSelection" where
  "contents this args =
     \<lparr> r_name = sel_name this,
       r_type = sel_type this,
       r_skipIfOnlyOne = sel_skipIfOnlyOne this,
       r_skipIf = map_option (eval args) (sel_skipIf this),
       r_expand = sel_expand this,
       r_choices = map_option (eval args) (sel_choices this),
       r_boardChoices = map_option (queried args) (sel_boardChoices this),
       r_min = map_option (eval args) (sel_min this),
       r_max = map_option (eval args) (sel_max this),
       r_regexp = sel_regexp this,
       r_value = sel_value this \<rparr>"

text \<open>
  \<^verbatim>\<open>resolve(...args)\<close> returns \<^verbatim>\<open>this\<close> when \<^verbatim>\<open>isResolved()\<close>. Otherwise it makes a copy,
  \<^verbatim>\<open>new Selection(this)\<close>, and assigns it each function field applied to the arguments.
  The copying branch of the constructor copies the fields it lists, and \<^verbatim>\<open>name\<close> is not
  among them: the copy has no name. For a board query given as a string it throws
  \<^verbatim>\<open>Error("not impl")\<close> (past \<^verbatim>\<open>isResolved\<close>, so only when some field is a function).
  Which of the two objects the result is, is decided by \<open>isResolved\<close> where it matters.
\<close>

definition resolve :: "selection \<Rightarrow> argument list \<Rightarrow> error + resolvedSelection" where
  "resolve this args =
     (if isResolved this then Inr (contents this args)
      else (case sel_boardChoices this of
              Some (QueryString q) \<Rightarrow> Inl (Error ''not impl'')
            | _ \<Rightarrow> Inr ((contents this args)\<lparr>r_name := None\<rparr>)))"

text \<open>\<^verbatim>\<open>this.min ?? 1\<close>\<close>

definition minOr1 :: "resolvedSelection \<Rightarrow> int" where
  "minOr1 this = (case r_min this of None \<Rightarrow> 1 | Some m \<Rightarrow> m)"

definition isUnbounded :: "resolvedSelection \<Rightarrow> bool" where
  "isUnbounded this =
     (if r_type this = Number
      then (case r_max this of None \<Rightarrow> True | Some mx \<Rightarrow> mx - minOr1 this > 100)
      else r_type this = Text \<or> r_type this = Button)"

definition isMulti :: "resolvedSelection \<Rightarrow> bool" where
  "isMulti this = (r_min this \<noteq> None \<or> r_max this \<noteq> None)"

text \<open>
  Modelled from the spec: \<^verbatim>\<open>range\<close> of \<^verbatim>\<open>../utils.js\<close>, which is not among the sources.
  The spec: ``the inclusive integer range [min, max]''.
\<close>

definition range_incl :: "int \<Rightarrow> int \<Rightarrow> int list" where
  "range_incl lo hi = [lo..hi]"

text \<open>
  Modelled from the spec: \<^verbatim>\<open>combinations\<close> of \<^verbatim>\<open>./utils.js\<close>, which is not among the
  sources. The spec: ``the list of all combinations of the candidate elements of every
  size between min and max''; \<open>None\<close> is the upper bound \<^verbatim>\<open>Infinity\<close>. The spec fixes no
  order; the order of \<^const>\<open>subseqs\<close> is taken.
\<close>

definition combinations :: "'a list \<Rightarrow> int \<Rightarrow> int option \<Rightarrow> 'a list list" where
  "combinations xs lo hi =
     filter (\<lambda>c. lo \<le> int (length c) \<and> (case hi of None \<Rightarrow> True | Some h \<Rightarrow> int (length c) \<le> h))
       (subseqs xs)"

text \<open>
  The board choices as a condition (\<^verbatim>\<open>this.boardChoices && ...\<close>,
  \<^verbatim>\<open>this.boardChoices || ...\<close>) and as a sequence (\<^verbatim>\<open>.length\<close>, \<^verbatim>\<open>for ... of\<close>). An array,
  even an empty one, is truthy; \<^verbatim>\<open>undefined\<close> and the empty string are falsy. A string
  is the sequence of its characters, each a string of length one.
\<close>

fun truthyChoices :: "boardChoices option \<Rightarrow> bool" where
  "truthyChoices None = False"
| "truthyChoices (Some (Elements xs)) = True"
| "truthyChoices (Some (Unresolved q)) = (q \<noteq> [])"

fun items :: "boardChoices \<Rightarrow> argument list" where
  "items (Elements xs) = xs"
| "items (Unresolved q) = map (\<lambda>c. Str [c]) q"

text \<open>
  \<^verbatim>\<open>options()\<close>. In the number branch \<^verbatim>\<open>this.max!\<close> is defined, because the selection is
  not unbounded.
\<close>

definition options :: "resolvedSelection \<Rightarrow> argument list" where
  "options this =
     (if isUnbounded this then []
      else if r_type this = Number then
        (case r_max this of None \<Rightarrow> [] | Some mx \<Rightarrow> map Num (range_incl (minOr1 this) mx))
      else
        (let choices = map_option choiceValues (r_choices this) in
         if isMulti this then
           map Arr (combinations
             (if truthyChoices (r_boardChoices this) then items (the (r_boardChoices this))
              else (case choices of Some c \<Rightarrow> c | None \<Rightarrow> []))
             (minOr1 this) (r_max this))
         else if truthyChoices (r_boardChoices this) then items (the (r_boardChoices this))
         else (case r_choices this of Some c \<Rightarrow> choiceValues c | None \<Rightarrow> [])))"

definition isPossible :: "resolvedSelection \<Rightarrow> bool" where
  "isPossible this =
     (if r_type this = Choices \<and> r_choices this \<noteq> None
      then length (choiceValues (the (r_choices this))) > 0
      else
        (let isInBounds = (case r_max this of Some mx \<Rightarrow> minOr1 this \<le> mx | None \<Rightarrow> True) in
         if r_type this = Board \<and> truthyChoices (r_boardChoices this)
         then isInBounds \<and> int (length (items (the (r_boardChoices this)))) \<ge> minOr1 this
         else if r_type this = Number then isInBounds
         else True))"

text \<open>
  \<^verbatim>\<open>overrideOptions(options)\<close> has an effect on \<^verbatim>\<open>this\<close> and a return value. For a
  board selection it assigns \<^verbatim>\<open>this.boardChoices\<close> and returns \<^verbatim>\<open>this\<close>; for any other
  kind it leaves \<^verbatim>\<open>this\<close> alone and returns a new choices Selection built from the
  definition \<^verbatim>\<open>{selectFromChoices: {choices: options}}\<close>, with the defaults of the class.
  The pair is (\<^verbatim>\<open>this\<close> afterwards, returned object).
\<close>

definition overrideOptions ::
  "resolvedSelection \<Rightarrow> argument list \<Rightarrow> resolvedSelection \<times> resolvedSelection" where
  "overrideOptions this opts =
     (if r_type this = Board
      then (this\<lparr>r_boardChoices := Some (Elements opts)\<rparr>,
            this\<lparr>r_boardChoices := Some (Elements opts)\<rparr>)
      else (this,
            \<lparr> r_name = None, r_type = Choices, r_skipIfOnlyOne = True, r_skipIf = None,
              r_expand = False, r_choices = Some (ChoiceList opts), r_boardChoices = None,
              r_min = None, r_max = None, r_regexp = None, r_value = None \<rparr>))"

section \<open>Validation (selection.ts)\<close>

text \<open>\<^verbatim>\<open>xs.includes(arg)\<close> on an array; an array of arguments does not hold \<^verbatim>\<open>undefined\<close>.\<close>

definition arrayIncludes :: "argument list \<Rightarrow> argument option \<Rightarrow> bool" where
  "arrayIncludes xs arg = (case arg of None \<Rightarrow> False | Some a \<Rightarrow> a \<in> set xs)"

text \<open>
  \<^verbatim>\<open>results.includes(arg)\<close> where \<^verbatim>\<open>results\<close> is \<^verbatim>\<open>s.boardChoices\<close>. On a string this is
  \<^verbatim>\<open>String.prototype.includes\<close>, which converts the argument to a string and looks for it
  as a substring; the conversion of a board element or a player is up to their
  classes, which are not among the sources, so the test on a string is a parameter,
  \<open>stringIncludes\<close>.
\<close>

fun resultsInclude ::
  "(string \<Rightarrow> argument option \<Rightarrow> bool) \<Rightarrow> boardChoices \<Rightarrow> argument option \<Rightarrow> bool" where
  "resultsInclude stringIncludes (Elements xs) arg = arrayIncludes xs arg"
| "resultsInclude stringIncludes (Unresolved q) arg = stringIncludes q arg"


text \<open>\<^verbatim>\<open>isMulti()\<close> on the Selection itself, as \<^verbatim>\<open>validate\<close> calls it (\<^verbatim>\<open>this.isMulti()\<close>).\<close>

definition sel_isMulti :: "selection \<Rightarrow> bool" where
  "sel_isMulti this = (sel_min this \<noteq> None \<or> sel_max this \<noteq> None)"

text \<open>
  \<^verbatim>\<open>validate(arg, previousArgs)\<close>: \<open>Inl\<close> is the exception it throws, \<open>Inr None\<close> is
  \<^verbatim>\<open>undefined\<close> (no error) and \<open>Inr (Some msg)\<close> the error string it returns. \<open>arg\<close> is
  \<open>None\<close> when the caller passes \<^verbatim>\<open>undefined\<close>, and \<open>previousArgs\<close> is \<open>None\<close> when the
  caller passes no second argument: the first statement,
  \<^verbatim>\<open>this.resolve(...previousArgs)\<close>, then spreads \<^verbatim>\<open>undefined\<close>, which is a \<^verbatim>\<open>TypeError\<close>.
  An exception of \<^verbatim>\<open>resolve\<close> leaves \<^verbatim>\<open>validate\<close>. A multi-select board argument that
  passes its three tests falls through the text and number tests, which a board
  selection does not match, to the final \<^verbatim>\<open>return undefined\<close>.
\<close>

definition validate ::
  "(string \<Rightarrow> argument option \<Rightarrow> bool) \<Rightarrow> selection \<Rightarrow> argument option \<Rightarrow>
   argument list option \<Rightarrow> error + string option" where
  "validate stringIncludes this arg previousArgs =
     (case previousArgs of
        None \<Rightarrow> Inl TypeError
      | Some previous \<Rightarrow>
     (case resolve this previous of
        Inl e \<Rightarrow> Inl e
      | Inr s \<Rightarrow>
      if r_skipIf s = Some True then Inr None
      else if r_type s = Choices \<and> r_choices s \<noteq> None then
        (case arg of
           Some (Arr xs) \<Rightarrow> Inr (Some ''multi-choice stil unsupported'')
         | _ \<Rightarrow> if arrayIncludes (choiceValues (the (r_choices s))) arg
                then Inr None else Inr (Some ''Not a valid choice''))
      else if r_type s = Board \<and> truthyChoices (r_boardChoices s) then
        (let results = the (r_boardChoices s) in
         if sel_isMulti this then
           (case arg of
              Some (Arr xs) \<Rightarrow>
                if (\<exists>a \<in> set xs. \<not> resultsInclude stringIncludes results (Some a))
                then Inr (Some ''Selected elements are not valid'')
                else if (case r_min s of Some m \<Rightarrow> int (length xs) < m | None \<Rightarrow> False)
                then Inr (Some ''Below minimum'')
                else if (case r_max s of Some m \<Rightarrow> int (length xs) > m | None \<Rightarrow> False)
                then Inr (Some ''Above maximum'')
                else Inr None
            | _ \<Rightarrow> Inl (Error ''Required multi select''))
         else if resultsInclude stringIncludes results arg then Inr None
         else Inr (Some ''Selected element is not valid''))
      else if r_type s = Text then
        (case arg of
           Some (Str t) \<Rightarrow>
             (case r_regexp s of
                None \<Rightarrow> Inr None
              | Some re \<Rightarrow> if re t then Inr None else Inr (Some ''Invalid text entered''))
         | _ \<Rightarrow> Inr (Some ''Invalid text entered''))
      else if r_type s = Number then
        (case arg of
           Some (Num n) \<Rightarrow>
             if (case r_min s of Some m \<Rightarrow> n < m | None \<Rightarrow> False) then Inr (Some ''Below minimum'')
             else if (case r_max s of Some m \<Rightarrow> n > m | None \<Rightarrow> False) then Inr (Some ''Above maximum'')
             else Inr None
         | _ \<Rightarrow> Inr (Some ''Not a number''))
      else Inr None))"

section \<open>Action (action.ts)\<close>

text \<open>
  A behaviour registered with \<^verbatim>\<open>do\<close> receives the arguments, may change the game
  state \<open>'st\<close>, and may throw: it returns the state it leaves behind and what it threw,
  if anything. JavaScript throws any value. The \<^verbatim>\<open>catch\<close> of \<^verbatim>\<open>_process\<close> reads the
  \<^verbatim>\<open>message\<close> property of the value caught: \<open>Thrown m\<close> is a value other than \<^verbatim>\<open>null\<close> and
  \<^verbatim>\<open>undefined\<close> whose \<^verbatim>\<open>message\<close> is \<open>m\<close> (the message of an \<^verbatim>\<open>Error\<close>; \<open>None\<close>, that is
  \<^verbatim>\<open>undefined\<close>, for a thrown string, number or object without that property), and
  \<open>ThrownNullish\<close> is \<^verbatim>\<open>null\<close> or \<^verbatim>\<open>undefined\<close>, of which no property can be read.
\<close>

datatype thrown = Thrown "argument option" | ThrownNullish

type_synonym 'st move = "args \<Rightarrow> 'st \<Rightarrow> 'st \<times> thrown option"

text \<open>
  The class \<^verbatim>\<open>Action\<close>: its \<^verbatim>\<open>name\<close> and, from \<^verbatim>\<open>_cfg\<close>, the \<^verbatim>\<open>selections\<close> and the
  \<^verbatim>\<open>moves\<close>. Prompt, condition and messages are not read by the functions below.
\<close>

record 'st action =
  a_name :: string
  selections :: "selection list"
  moves :: "'st move list"

text \<open>
  \<^verbatim>\<open>PendingMove\<close> as action.ts builds it: \<^verbatim>\<open>{action, args, selection}\<close>. The selection
  of a move is an object, the one \<^verbatim>\<open>resolve\<close> returned: either the action's own
  Selection at some index of \<^verbatim>\<open>_cfg.selections\<close>, which the move shares with the action
  and with every other move that holds it, or a copy that \<^verbatim>\<open>resolve\<close> made of the
  selection at that index, with the contents of the copy.
\<close>

datatype selectionRef = Own nat | Copy nat resolvedSelection

fun index :: "selectionRef \<Rightarrow> nat" where
  "index (Own i) = i"
| "index (Copy i r) = i"

record pendingMove =
  pm_action :: string
  pm_args :: args
  pm_selection :: selectionRef

text \<open>
  The Selection objects of an action are shared and mutable: \<^verbatim>\<open>resolve\<close> returns the
  object itself when it has no function field, and \<^verbatim>\<open>overrideOptions\<close> then assigns
  its \<^verbatim>\<open>boardChoices\<close>, which every later \<^verbatim>\<open>resolve\<close> of that object sees. The store
  maps the index of a selection in \<^verbatim>\<open>_cfg.selections\<close> to the \<^verbatim>\<open>boardChoices\<close> assigned
  to it so far; \<open>current\<close> is the object as it stands, and \<open>shown\<close> is what the selection
  of a pending move holds when it is read at a given store.
\<close>

type_synonym store = "nat \<rightharpoonup> argument list"

definition current :: "store \<Rightarrow> nat \<Rightarrow> selection \<Rightarrow> selection" where
  "current ov i s = (case ov i of None \<Rightarrow> s | Some b \<Rightarrow> s\<lparr>sel_boardChoices := Some (QueryArray b)\<rparr>)"

definition shown :: "'st action \<Rightarrow> store \<Rightarrow> selectionRef \<Rightarrow> resolvedSelection" where
  "shown a ov ref =
     (case ref of
        Own i \<Rightarrow> contents (current ov i (selections a ! i)) []
      | Copy i r \<Rightarrow> r)"

definition selectionRef :: "bool \<Rightarrow> nat \<Rightarrow> resolvedSelection \<Rightarrow> selectionRef" where
  "selectionRef own i selection = (if own then Own i else Copy i selection)"

text \<open>
  \<^verbatim>\<open>_nextSelection(args)\<close>: the loop over \<^verbatim>\<open>this._cfg.selections\<close> from index \<open>i\<close> on.
  \<^verbatim>\<open>s.resolve(args)\<close> hands the record to \<^verbatim>\<open>resolve(...args)\<close> as its one argument, and an
  exception of \<^verbatim>\<open>resolve\<close> leaves the loop. The test \<^verbatim>\<open>s.name in args\<close> reads the name
  of \<open>s\<close>, the selection of the action. The result is the index of the selection,
  whether \<^verbatim>\<open>resolve\<close> returned the action's own object, and the resolved contents.
\<close>

fun nextSelectionFrom ::
  "store \<Rightarrow> args \<Rightarrow> nat \<Rightarrow> selection list \<Rightarrow>
   error + (nat \<times> bool \<times> resolvedSelection) option" where
  "nextSelectionFrom ov args i [] = Inr None"
| "nextSelectionFrom ov args i (s # ss) =
     (case resolve (current ov i s) [Obj args] of
        Inl e \<Rightarrow> Inl e
      | Inr selection \<Rightarrow>
          if r_skipIf selection = Some True then nextSelectionFrom ov args (Suc i) ss
          else if \<not> hasProperty (propertyKey (sel_name s)) args
          then Inr (Some (i, isResolved (current ov i s), selection))
          else nextSelectionFrom ov args (Suc i) ss)"

definition nextSelection ::
  "'st action \<Rightarrow> store \<Rightarrow> args \<Rightarrow> error + (nat \<times> bool \<times> resolvedSelection) option" where
  "nextSelection a ov args = nextSelectionFrom ov args 0 (selections a)"

text \<open>The local variables of the loop over the options in \<^verbatim>\<open>_getResolvedSelections\<close>.\<close>

record tally =
  possibleOptions :: "argument list"
  pruned :: bool
  resolvedSelections :: "pendingMove list"
  mayExpand :: bool

text \<open>
  Their values before the loop: \<^verbatim>\<open>possibleOptions = []\<close>, \<^verbatim>\<open>pruned = false\<close>,
  \<^verbatim>\<open>resolvedSelections = []\<close>, \<^verbatim>\<open>mayExpand = selection.expand\<close>.
\<close>

definition startTally :: "resolvedSelection \<Rightarrow> tally" where
  "startTally selection =
     \<lparr> possibleOptions = [], pruned = False, resolvedSelections = [],
       mayExpand = r_expand selection \<rparr>"

text \<open>One pass of the loop body, given what the recursive call returned.\<close>

definition tryOption ::
  "resolvedSelection \<Rightarrow> argument \<Rightarrow> pendingMove list option \<Rightarrow> tally \<Rightarrow> tally" where
  "tryOption selection option submoves t =
     (case submoves of
        None \<Rightarrow> t\<lparr>pruned := True\<rparr>
      | Some ms \<Rightarrow>
          t\<lparr> possibleOptions := possibleOptions t @ [option],
             mayExpand := (if r_expand selection \<and> ms = [] then False else mayExpand t),
             resolvedSelections := resolvedSelections t @ ms \<rparr>)"

text \<open>
  The loop \<^verbatim>\<open>for (const option of selection.options())\<close>, over the options that are
  left, with the recursive call as \<open>call\<close>: it runs on the store as the calls before it
  left it, and on the record \<^verbatim>\<open>{...args, [selection.name]: option}\<close>, whose key is the
  name of the resolved selection. A call that throws or overflows ends the loop.
\<close>

fun tryOptions ::
  "(store \<Rightarrow> args \<Rightarrow> (pendingMove list option \<times> store) outcome) \<Rightarrow> resolvedSelection \<Rightarrow>
   args \<Rightarrow> argument list \<Rightarrow> tally \<Rightarrow> store \<Rightarrow> (tally \<times> store) outcome" where
  "tryOptions call selection args [] t ov = Returns (t, ov)"
| "tryOptions call selection args (option # rest) t ov =
     (case call ov (args(propertyKey (r_name selection) \<mapsto> option)) of
        Overflows \<Rightarrow> Overflows
      | Throws e \<Rightarrow> Throws e
      | Returns (submoves, ov') \<Rightarrow>
          tryOptions call selection args rest (tryOption selection option submoves t) ov')"

text \<open>
  The lines after the loop. \<^verbatim>\<open>selection.overrideOptions(possibleOptions)\<close> is called
  for its effect on \<^verbatim>\<open>selection\<close>, which \<^verbatim>\<open>move.selection\<close> is; its return value is
  dropped. When \<^verbatim>\<open>selection\<close> is the action's own object (\<open>own\<close>, at index \<open>i\<close>), the
  store takes the assignment; when it is a copy, the copy does.
\<close>

definition afterLoop ::
  "'st action \<Rightarrow> args \<Rightarrow> nat \<Rightarrow> bool \<Rightarrow> resolvedSelection \<Rightarrow> tally \<Rightarrow> store \<Rightarrow>
   pendingMove list option \<times> store" where
  "afterLoop a args i own selection t ov =
     (if possibleOptions t = [] then (None, ov)
      else
        (let overrides = (pruned t \<and> \<not> isMulti selection);
             selection' = (if overrides then fst (overrideOptions selection (possibleOptions t))
                           else selection);
             ov' = (if overrides \<and> r_type selection = Board \<and> own
                    then ov(i \<mapsto> possibleOptions t) else ov);
             move = \<lparr> pm_action = a_name a, pm_args = args,
                      pm_selection = selectionRef own i selection' \<rparr>
         in
         if resolvedSelections t = [] \<or> r_type selection' = Board then (Some [move], ov')
         else if mayExpand t then (Some (resolvedSelections t), ov')
         else if r_skipIfOnlyOne selection' \<and> length (possibleOptions t) = 1
         then (Some (resolvedSelections t), ov')
         else (Some [move], ov')))"

text \<open>
  \<^verbatim>\<open>_getResolvedSelections(args)\<close> with \<open>fuel\<close> nested calls allowed: \<open>None\<close> is
  \<^verbatim>\<open>undefined\<close>, the infeasible result. The function returns the store as the call
  leaves it; what a caller reads from the selection of a pending move is \<open>shown\<close> at
  that store.
\<close>

primrec getResolvedSelections ::
  "nat \<Rightarrow> 'st action \<Rightarrow> store \<Rightarrow> args \<Rightarrow> (pendingMove list option \<times> store) outcome" where
  "getResolvedSelections 0 a ov args = Overflows"
| "getResolvedSelections (Suc fuel) a ov args =
     (case nextSelection a ov args of
        Inl e \<Rightarrow> Throws e
      | Inr None \<Rightarrow> Returns (Some [], ov)
      | Inr (Some (i, own, selection)) \<Rightarrow>
          if \<not> isPossible selection then Returns (None, ov)
          else if isUnbounded selection
          then Returns (Some [\<lparr> pm_action = a_name a, pm_args = args,
                                 pm_selection = selectionRef own i selection \<rparr>], ov)
          else
            (case tryOptions (getResolvedSelections fuel a) selection args (options selection)
                    (startTally selection) ov of
               Overflows \<Rightarrow> Overflows
             | Throws e \<Rightarrow> Throws e
             | Returns (t, ov') \<Rightarrow> Returns (afterLoop a args i own selection t ov')))"

text \<open>\<^verbatim>\<open>if (error)\<close> and \<^verbatim>\<open>error || msg\<close>: \<^verbatim>\<open>undefined\<close> and the empty string are falsy.\<close>

definition truthy :: "string option \<Rightarrow> bool" where
  "truthy e = (case e of None \<Rightarrow> False | Some m \<Rightarrow> m \<noteq> [])"

definition orElse :: "string option \<Rightarrow> string \<Rightarrow> string" where
  "orElse e msg = (if truthy e then the e else msg)"

text \<open>
  The first loop of \<^verbatim>\<open>_process\<close>:
  \<^verbatim>\<open>for (const selection of this._cfg.selections) { error = selection.validate(args); if (error) break; }\<close>
  and the value of \<^verbatim>\<open>error\<close> after it (falsy when no selection reported an error).
  The call \<^verbatim>\<open>selection.validate(args)\<close> has one argument: \<^verbatim>\<open>validate(arg, previousArgs)\<close>
  takes the record as \<open>arg\<close> and nothing as \<open>previousArgs\<close>. An exception of
  \<^verbatim>\<open>validate\<close> leaves the loop and \<^verbatim>\<open>_process\<close>.
\<close>

fun validateAll ::
  "(string \<Rightarrow> argument option \<Rightarrow> bool) \<Rightarrow> store \<Rightarrow> nat \<Rightarrow> selection list \<Rightarrow> args \<Rightarrow>
   error + string option" where
  "validateAll stringIncludes ov i [] args = Inr None"
| "validateAll stringIncludes ov i (s # ss) args =
     (case validate stringIncludes (current ov i s) (Some (Obj args)) None of
        Inl e \<Rightarrow> Inl e
      | Inr error \<Rightarrow>
          if truthy error then Inr error else validateAll stringIncludes ov (Suc i) ss args)"

text \<open>
  \<^verbatim>\<open>for (const move of this._cfg.moves) move(args)\<close> inside \<^verbatim>\<open>try\<close>: the loop ends at
  the first behaviour that throws, with the state as that behaviour left it.
\<close>

fun runMoves :: "'st move list \<Rightarrow> args \<Rightarrow> 'st \<Rightarrow> 'st \<times> thrown option" where
  "runMoves [] args st = (st, None)"
| "runMoves (m # ms) args st =
     (case m args st of
        (st', Some e) \<Rightarrow> (st', Some e)
      | (st', None) \<Rightarrow> runMoves ms args st')"

text \<open>
  \<^verbatim>\<open>_process(args)\<close> on an action whose selections stand as the store \<open>ov\<close> says and a
  game in state \<open>st\<close>. It returns a value, \<open>Some\<close> of the error or \<open>None\<close> for the
  \<^verbatim>\<open>undefined\<close> at the end of a move that was applied, or throws. The \<^verbatim>\<open>catch\<close> returns
  \<^verbatim>\<open>e.message\<close>, whatever was thrown; reading it of \<^verbatim>\<open>null\<close> or \<^verbatim>\<open>undefined\<close> is a
  \<^verbatim>\<open>TypeError\<close>, thrown from inside the \<^verbatim>\<open>catch\<close>.
\<close>

definition process ::
  "(string \<Rightarrow> argument option \<Rightarrow> bool) \<Rightarrow> nat \<Rightarrow> 'st action \<Rightarrow> store \<Rightarrow> args \<Rightarrow> 'st \<Rightarrow>
   argument option outcome \<times> 'st" where
  "process stringIncludes fuel a ov args st =
     (case validateAll stringIncludes ov 0 (selections a) args of
        Inl e \<Rightarrow> (Throws e, st)
      | Inr error \<Rightarrow>
          (case getResolvedSelections fuel a ov args of
             Overflows \<Rightarrow> (Overflows, st)
           | Throws e \<Rightarrow> (Throws e, st)
           | Returns (None, ov') \<Rightarrow>
               (Returns (Some (Str (orElse error ''unknown error during action._process''))), st)
           | Returns (Some resolved, ov') \<Rightarrow>
               if resolved \<noteq> []
               then (Returns (Some (Str (orElse error ''incomplete action''))), st)
               else
                 (case runMoves (moves a) args st of
                    (st', None) \<Rightarrow> (Returns None, st')
                  | (st', Some (Thrown message)) \<Rightarrow> (Returns message, st')
                  | (st', Some ThrownNullish) \<Rightarrow> (Throws TypeError, st'))))"

section \<open>Game (game.ts)\<close>



text \<open>
  \<^verbatim>\<open>new Selection('__action__', {...})\<close>, as game.ts writes it in two places (and as the
  methods of action.ts that add a selection write it, with the name of the selection).
  The constructor of selection.ts has one parameter, \<open>s\<close>, which takes the name, and the
  definition is not read. A string is no Selection and has none of the properties
  \<^verbatim>\<open>selectFromChoices\<close>, \<^verbatim>\<open>selectOnBoard\<close>, \<^verbatim>\<open>selectNumber\<close>, \<^verbatim>\<open>enterText\<close>, so the
  constructor reaches \<^verbatim>\<open>if ('skipIfOnlyOne' in s)\<close>, and the operator \<^verbatim>\<open>in\<close> throws a
  \<^verbatim>\<open>TypeError\<close> when its right operand is not an object. The call never returns a
  Selection: this is what it throws.
\<close>

definition newSelectionByName :: "string \<Rightarrow> error" where
  "newSelectionByName name = TypeError"


definition chooseNumber ::
  "string \<Rightarrow> int field option \<Rightarrow> int field option \<Rightarrow> 'st action \<Rightarrow> 'st action outcome" where
  "chooseNumber name mn mx a = Throws (newSelectionByName name)"

definition chooseOnBoard ::
  "string \<Rightarrow> boardQuery \<Rightarrow> int field option \<Rightarrow> int field option \<Rightarrow> 'st action \<Rightarrow>
   'st action outcome" where
  "chooseOnBoard name choices mn mx a = Throws (newSelectionByName name)"



text \<open>
  The board's context \<^verbatim>\<open>this.board._ctx.player\<close> inside the state of a game; the rest of
  the state is the extension of the record. A function run in a player's context
  returns \<open>Inl\<close> for an exception it throws and \<open>Inr\<close> for its result, with the state
  it leaves behind.
\<close>

record game =
  ctx_player :: "nat option"

definition contextualizeBoardToPlayer ::
  "nat option \<Rightarrow> 'g game_scheme \<Rightarrow> nat option \<times> 'g game_scheme" where
  "contextualizeBoardToPlayer player g = (ctx_player g, g\<lparr>ctx_player := player\<rparr>)"

definition inContextOfPlayer ::
  "nat \<Rightarrow> ('g game_scheme \<Rightarrow> (error + 'r) \<times> 'g game_scheme) \<Rightarrow> 'g game_scheme \<Rightarrow>
   (error + 'r) \<times> 'g game_scheme" where
  "inContextOfPlayer player fn g =
     (case contextualizeBoardToPlayer (Some player) g of
        (prev, g1) \<Rightarrow>
          (case fn g1 of
             (Inl e, g2) \<Rightarrow> (Inl e, g2)
           | (Inr results, g2) \<Rightarrow> (Inr results, snd (contextualizeBoardToPlayer prev g2))))"

section \<open>The constructor of Selection, on a definition\<close>

text \<open>
  \<^verbatim>\<open>new Selection(s)\<close> where \<open>s\<close> is a \<^verbatim>\<open>SelectionDefinition\<close>, the one argument the
  constructor takes: \<^verbatim>\<open>{selectFromChoices: {choices}}\<close>, \<^verbatim>\<open>{selectNumber: {min, max}}\<close> and
  \<^verbatim>\<open>{selectOnBoard: {chooseFrom, min, max}}\<close>, with the other keys of the definition left
  out. \<^verbatim>\<open>skipIfOnlyOne\<close> is true and \<^verbatim>\<open>expand\<close> false by default, a number selection starts
  at its minimum (\<^verbatim>\<open>initial = min\<close>), and no name is assigned. \<open>named\<close> is the assignment
  \<^verbatim>\<open>selection.name = name\<close> on the object; neither selection.ts nor action.ts makes it.
\<close>

definition newSelection :: "kind \<Rightarrow> selection" where
  "newSelection k =
     \<lparr> sel_name = None, sel_type = k, sel_prompt = None, sel_skipIfOnlyOne = True,
       sel_skipIf = None, sel_expand = False, sel_choices = None, sel_boardChoices = None,
       sel_min = None, sel_max = None, sel_initial = None, sel_regexp = None,
       sel_value = None \<rparr>"

fun initialOfMin :: "int field option \<Rightarrow> argument field option" where
  "initialOfMin None = None"
| "initialOfMin (Some (Const m)) = Some (Const (Num m))"
| "initialOfMin (Some (Computed f)) = Some (Computed (\<lambda>passed. Num (f passed)))"

definition selectFromChoices :: "choiceSet field \<Rightarrow> selection" where
  "selectFromChoices choices = (newSelection Choices)\<lparr>sel_choices := Some choices\<rparr>"

definition selectNumber :: "int field option \<Rightarrow> int field option \<Rightarrow> selection" where
  "selectNumber mn mx =
     (newSelection Number)\<lparr>sel_min := mn, sel_max := mx, sel_initial := initialOfMin mn\<rparr>"

definition selectOnBoard ::
  "boardQuery \<Rightarrow> int field option \<Rightarrow> int field option \<Rightarrow> selection" where
  "selectOnBoard query mn mx =
     (newSelection Board)\<lparr>sel_boardChoices := Some query, sel_min := mn, sel_max := mx\<rparr>"

definition named :: "string \<Rightarrow> selection \<Rightarrow> selection" where
  "named name s = s\<lparr>sel_name := Some name\<rparr>"

text \<open>
  What a function field reads of the arguments it is called with: the property \<open>key\<close> of
  its first argument, as \<^verbatim>\<open>({key}) => ...\<close> does.
\<close>

definition chosen :: "string \<Rightarrow> argument list \<Rightarrow> argument option" where
  "chosen key passed = (case passed of Obj r # rest \<Rightarrow> r key | _ \<Rightarrow> None)"

section \<open>The actions of the scenarios\<close>




text \<open>
  The action of the repository's tests of \<^verbatim>\<open>Action\<close> (``resolves dependant
  selections''): a number \<open>n\<close> from 0 to 3, then a number \<open>m\<close> from \<open>n * 1\<close> to \<open>n * 2\<close>, with
  the two Selections named \<^verbatim>\<open>'n'\<close> and \<^verbatim>\<open>'m'\<close>, and with both as the constructor leaves
  them. And an action with one choice, whose name is \<^verbatim>\<open>'toString'\<close>. \<open>timesOf\<close> and \<open>elementNumber\<close>
  are the functions of such fields: a multiple of the number chosen under a key, and
  the number of the board element chosen under a key.
\<close>

definition timesOf :: "string \<Rightarrow> int \<Rightarrow> argument list \<Rightarrow> int" where
  "timesOf key k passed = (case chosen key passed of Some (Num n) \<Rightarrow> n * k | _ \<Rightarrow> 0)"

definition elementNumber :: "string \<Rightarrow> argument list \<Rightarrow> int" where
  "elementNumber key passed = (case chosen key passed of Some (Elem n) \<Rightarrow> int n | _ \<Rightarrow> 0)"

definition dependent :: "unit action" where
  "dependent =
     \<lparr> a_name = ''add'',
       selections =
         [named ''n'' (selectNumber (Some (Const 0)) (Some (Const 3))),
          named ''m'' (selectNumber (Some (Computed (timesOf ''n'' 1)))
                                     (Some (Computed (timesOf ''n'' 2))))],
       moves = [] \<rparr>"

definition dependentUnnamed :: "unit action" where
  "dependentUnnamed =
     \<lparr> a_name = ''add'',
       selections =
         [selectNumber (Some (Const 0)) (Some (Const 3)),
          selectNumber (Some (Computed (timesOf ''undefined'' 1)))
                       (Some (Computed (timesOf ''undefined'' 2)))],
       moves = [] \<rparr>"

definition toStringChoice :: "unit action" where
  "toStringChoice =
     \<lparr> a_name = ''convert'',
       selections = [named ''toString'' (selectFromChoices (Const (ChoiceList [Num 1, Num 2])))],
       moves = [] \<rparr>"

text \<open>
  An action whose only selection has one choice; and a choice between 1 and 3 followed
  by a number from the value chosen up to 2, which no name has been given; and the same
  with the board elements 1 and 3 in place of the choices.
\<close>

definition onlyChoice :: "unit action" where
  "onlyChoice =
     \<lparr> a_name = ''pick'',
       selections = [named ''choice'' (selectFromChoices (Const (ChoiceList [Num 1])))],
       moves = [] \<rparr>"

definition skipsChoice :: "unit action" where
  "skipsChoice =
     \<lparr> a_name = ''pick'',
       selections =
         [named ''a'' (selectFromChoices (Const (ChoiceList [Num 1, Num 3]))),
          selectNumber (Some (Computed (timesOf ''a'' 1))) (Some (Const 2))],
       moves = [] \<rparr>"

definition skipsBoard :: "unit action" where
  "skipsBoard =
     \<lparr> a_name = ''pick'',
       selections =
         [named ''a'' (selectOnBoard (QueryArray [Elem 1, Elem 3]) None None),
          selectNumber (Some (Computed (elementNumber ''a''))) (Some (Const 2))],
       moves = [] \<rparr>"

text \<open>A resolved number selection from \<open>mn\<close> to \<open>mx\<close>, copied from a selection.\<close>

definition numberBetween :: "int option \<Rightarrow> int option \<Rightarrow> resolvedSelection" where
  "numberBetween mn mx =
     \<lparr> r_name = None, r_type = Number, r_skipIfOnlyOne = True, r_skipIf = None,
       r_expand = False, r_choices = None, r_boardChoices = None, r_min = mn,
       r_max = mx, r_regexp = None, r_value = None \<rparr>"

text \<open>
  A number selection from 1 to 101, and the action of the repository's test ``does not
  fully resolve unbounded args'': a number without \<^verbatim>\<open>max\<close>, then a number from ten times
  the first up to 4.
\<close>

definition numberOneTo101 :: resolvedSelection where
  "numberOneTo101 = numberBetween (Some 1) (Some 101)"

definition unboundedFirst :: "unit action" where
  "unboundedFirst =
     \<lparr> a_name = ''pick'',
       selections =
         [named ''n'' (selectNumber (Some (Const 1)) None),
          named ''m'' (selectNumber (Some (Computed (timesOf ''n'' 10))) (Some (Const 4)))],
       moves = [] \<rparr>"

text \<open>
  An action with a number from 0 to 3 and three behaviours, which log their number in
  the state; and an action without selections whose second behaviour, after logging,
  throws a string (\<^verbatim>\<open>throw 'no counters left'\<close>), a value without a \<^verbatim>\<open>message\<close>.
\<close>

definition logCall :: "nat \<Rightarrow> (nat list) move" where
  "logCall k args st = (st @ [k], None)"

definition logThenThrow :: "nat \<Rightarrow> thrown \<Rightarrow> (nat list) move" where
  "logThenThrow k e args st = (st @ [k], Some e)"

definition countTo3 :: "(nat list) action" where
  "countTo3 =
     \<lparr> a_name = ''count'',
       selections = [named ''n'' (selectNumber (Some (Const 0)) (Some (Const 3)))],
       moves = [logCall 1, logCall 2, logCall 3] \<rparr>"

definition throwsString :: "(nat list) action" where
  "throwsString =
     \<lparr> a_name = ''pass'',
       selections = [],
       moves = [logCall 1, logThenThrow 2 (Thrown None), logCall 3] \<rparr>"

text \<open>
  A choice among 1, 2 and 3, then a number from the value chosen up to 2, so that the
  choice of 3 cannot be completed; and the same with three board elements in place of
  the choices. The first selection is named \<^verbatim>\<open>'a'\<close>, the second has no name.
\<close>

definition prunedChoice :: "unit action" where
  "prunedChoice =
     \<lparr> a_name = ''x'',
       selections =
         [named ''a'' (selectFromChoices (Const (ChoiceList [Num 1, Num 2, Num 3]))),
          selectNumber (Some (Computed (timesOf ''a'' 1))) (Some (Const 2))],
       moves = [] \<rparr>"

definition prunedBoard :: "unit action" where
  "prunedBoard =
     \<lparr> a_name = ''x'',
       selections =
         [named ''a'' (selectOnBoard (QueryArray [Elem 1, Elem 2, Elem 3]) None None),
          selectNumber (Some (Computed (elementNumber ''a''))) (Some (Const 2))],
       moves = [] \<rparr>"






section \<open>The next selection\<close>

lemma hasProperty_update: "hasProperty k (args(key \<mapsto> v)) = (k = key \<or> hasProperty k args)"
  by (auto simp: hasProperty_def)

lemma sel_name_current: "sel_name (current ov i s) = sel_name s"
  by (simp add: current_def split: option.splits)

lemma r_name_resolve:
  "resolve s args = Inr sel \<Longrightarrow> r_name sel = (if isResolved s then sel_name s else None)"
  by (auto simp: resolve_def contents_def split: if_splits option.splits boardQuery.splits)

lemma nextSelectionFrom_Some:
  "nextSelectionFrom ov args k ss = Inr (Some (i, own, sel)) \<Longrightarrow>
     k \<le> i \<and> i < k + length ss \<and>
     \<not> hasProperty (propertyKey (sel_name (ss ! (i - k)))) args \<and>
     own = isResolved (current ov i (ss ! (i - k))) \<and>
     resolve (current ov i (ss ! (i - k))) [Obj args] = Inr sel"
proof (induction ss arbitrary: k)
  case Nil
  then show ?case by simp
next
  case (Cons s ss)
  show ?case
  proof (cases "resolve (current ov k s) [Obj args]")
    case (Inl e)
    with Cons.prems show ?thesis by simp
  next
    case (Inr selection)
    show ?thesis
    proof (cases "r_skipIf selection \<noteq> Some True \<and> \<not> hasProperty (propertyKey (sel_name s)) args")
      case True
      with Cons.prems Inr show ?thesis by auto
    next
      case False
      with Cons.prems Inr have "nextSelectionFrom ov args (Suc k) ss = Inr (Some (i, own, sel))"
        by (auto split: if_splits)
      from Cons.IH [OF this] have ih: "Suc k \<le> i \<and> i < Suc k + length ss \<and>
          \<not> hasProperty (propertyKey (sel_name (ss ! (i - Suc k)))) args \<and>
          own = isResolved (current ov i (ss ! (i - Suc k))) \<and>
          resolve (current ov i (ss ! (i - Suc k))) [Obj args] = Inr sel" .
      then have "(s # ss) ! (i - k) = ss ! (i - Suc k)"
        by (simp add: Suc_diff_le)
      with ih show ?thesis by simp
    qed
  qed
qed

lemma nextSelection_Some:
  assumes "nextSelection a ov args = Inr (Some (i, own, sel))"
  shows "i < length (selections a)"
    and "\<not> hasProperty (propertyKey (sel_name (selections a ! i))) args"
    and "own = isResolved (current ov i (selections a ! i))"
    and "resolve (current ov i (selections a ! i)) [Obj args] = Inr sel"
    and "r_name sel = (if own then sel_name (selections a ! i) else None)"
  using nextSelectionFrom_Some [of ov args 0 "selections a" i own sel] assms
        r_name_resolve [of "current ov i (selections a ! i)" "[Obj args]" sel]
  by (auto simp: nextSelection_def sel_name_current)

section \<open>The depth of the recursion\<close>

text \<open>More fuel changes nothing of a call that did not overflow.\<close>

lemma tryOptions_more_fuel:
  assumes "\<And>ov args. call ov args \<noteq> Overflows \<Longrightarrow> call' ov args = call ov args"
    and "tryOptions call sel args xs t ov \<noteq> Overflows"
  shows "tryOptions call' sel args xs t ov = tryOptions call sel args xs t ov"
  using assms(2)
proof (induction xs arbitrary: t ov)
  case Nil
  then show ?case by simp
next
  case (Cons x xs)
  from Cons.prems have c: "call ov (args(propertyKey (r_name sel) \<mapsto> x)) \<noteq> Overflows"
    by (auto split: outcome.splits)
  show ?case
    using Cons.prems Cons.IH assms(1) [OF c]
    by (cases "call ov (args(propertyKey (r_name sel) \<mapsto> x))") (auto split: prod.splits)
qed

lemma getRS_Suc_fuel:
  "getResolvedSelections fuel a ov args \<noteq> Overflows \<Longrightarrow>
   getResolvedSelections (Suc fuel) a ov args = getResolvedSelections fuel a ov args"
proof (induction fuel arbitrary: ov args)
  case 0
  then show ?case by simp
next
  case (Suc fuel)
  show ?case
  proof (cases "nextSelection a ov args")
    case (Inl e)
    then show ?thesis by simp
  next
    case (Inr found)
    show ?thesis
    proof (cases found)
      case None
      with Inr show ?thesis by simp
    next
      case (Some triple)
      obtain i own sel where t: "triple = (i, own, sel)" by (cases triple) auto
      show ?thesis
      proof (cases "isPossible sel \<and> \<not> isUnbounded sel")
        case False
        with Inr Some t show ?thesis by auto
      next
        case True
        with Suc.prems Inr Some t
        have "tryOptions (getResolvedSelections fuel a) sel args (options sel) (startTally sel) ov
                \<noteq> Overflows"
          by (auto split: outcome.splits)
        from tryOptions_more_fuel [of "getResolvedSelections fuel a"
               "getResolvedSelections (Suc fuel) a", OF Suc.IH this]
        show ?thesis using Inr Some t True by simp
      qed
    qed
  qed
qed

lemma getRS_more_fuel:
  "getResolvedSelections fuel a ov args \<noteq> Overflows \<Longrightarrow>
   getResolvedSelections (fuel + k) a ov args = getResolvedSelections fuel a ov args"
proof (induction k)
  case 0
  then show ?case by simp
next
  case (Suc k)
  then show ?case using getRS_Suc_fuel [of "fuel + k" a ov args] by simp
qed

section \<open>The loop over the options\<close>

lemma possibleOptions_tryOption:
  "\<exists>ys. possibleOptions (tryOption sel x sub t) = possibleOptions t @ ys"
  by (cases sub) (simp_all add: tryOption_def)

lemma tryOptions_possible_grows:
  "tryOptions call sel args xs t ov = Returns (t', ov') \<Longrightarrow>
   \<exists>ys. possibleOptions t' = possibleOptions t @ ys"
proof (induction xs arbitrary: t ov)
  case Nil
  then show ?case by simp
next
  case (Cons x xs)
  then obtain sub ov2 where
    c: "call ov (args(propertyKey (r_name sel) \<mapsto> x)) = Returns (sub, ov2)" and
    r: "tryOptions call sel args xs (tryOption sel x sub t) ov2 = Returns (t', ov')"
    by (auto split: outcome.splits)
  from Cons.IH [OF r] possibleOptions_tryOption [of sel x sub t] show ?case by auto
qed

lemma tryOptions_none_store:
  assumes keep: "\<And>ov args ov'. call ov args = Returns (None, ov') \<Longrightarrow> ov' = ov"
    and "tryOptions call sel args xs t ov = Returns (t', ov')"
    and "possibleOptions t' = []"
  shows "ov' = ov"
  using assms(2)
proof (induction xs arbitrary: t ov)
  case Nil
  then show ?case by simp
next
  case (Cons x xs)
  then obtain sub ov2 where
    c: "call ov (args(propertyKey (r_name sel) \<mapsto> x)) = Returns (sub, ov2)" and
    r: "tryOptions call sel args xs (tryOption sel x sub t) ov2 = Returns (t', ov')"
    by (auto split: outcome.splits)
  from tryOptions_possible_grows [OF r] assms(3)
  have "possibleOptions (tryOption sel x sub t) = []" by simp
  then have "sub = None" by (cases sub) (simp_all add: tryOption_def)
  with c keep have "ov2 = ov" by simp
  with Cons.IH [OF r] show ?case by simp
qed

lemma afterLoop_None:
  "afterLoop a args i own sel t ov = (None, ov') \<longleftrightarrow> possibleOptions t = [] \<and> ov' = ov"
  by (auto simp: afterLoop_def Let_def)

lemma getRS_None_store:
  "getResolvedSelections fuel a ov args = Returns (None, ov') \<Longrightarrow> ov' = ov"
proof (induction fuel arbitrary: ov args ov')
  case 0
  then show ?case by simp
next
  case (Suc fuel)
  show ?case
  proof (cases "nextSelection a ov args")
    case (Inl e)
    with Suc.prems show ?thesis by simp
  next
    case (Inr found)
    show ?thesis
    proof (cases found)
      case None
      with Inr Suc.prems show ?thesis by simp
    next
      case (Some triple)
      obtain i own sel where t: "triple = (i, own, sel)" by (cases triple) auto
      show ?thesis
      proof (cases "isPossible sel \<and> \<not> isUnbounded sel")
        case False
        with Inr Some t Suc.prems show ?thesis by (auto split: if_splits)
      next
        case True
        with Suc.prems Inr Some t obtain t' ov2 where
          l: "tryOptions (getResolvedSelections fuel a) sel args (options sel) (startTally sel) ov
                = Returns (t', ov2)" and
          r: "afterLoop a args i own sel t' ov2 = (None, ov')"
          by (auto split: outcome.splits)
        from r have "possibleOptions t' = []" "ov' = ov2" by (simp_all add: afterLoop_None)
        with tryOptions_none_store [OF Suc.IH l] show ?thesis by simp
      qed
    qed
  qed
qed

lemma tryOptions_dead:
  assumes keep: "\<And>ov args ov'. call ov args = Returns (None, ov') \<Longrightarrow> ov' = ov"
    and "\<forall>x \<in> set xs. \<exists>ov'. call ov (args(propertyKey (r_name sel) \<mapsto> x)) = Returns (None, ov')"
  shows "tryOptions call sel args xs t ov = Returns (if xs = [] then t else t\<lparr>pruned := True\<rparr>, ov)"
  using assms(2)
proof (induction xs arbitrary: t)
  case Nil
  then show ?case by simp
next
  case (Cons x xs)
  from Cons.prems
  have "\<exists>ov'. call ov (args(propertyKey (r_name sel) \<mapsto> x)) = Returns (None, ov')"
    by (simp del: fun_upd_apply)
  then obtain ov' where
    c: "call ov (args(propertyKey (r_name sel) \<mapsto> x)) = Returns (None, ov')" ..
  with keep have "ov' = ov" by simp
  with c Cons.IH [of "t\<lparr>pruned := True\<rparr>"] Cons.prems show ?case
    by (simp add: tryOption_def del: fun_upd_apply)
qed

lemma tryOptions_append:
  "tryOptions call sel args (xs @ ys) t ov =
     (case tryOptions call sel args xs t ov of
        Returns (t', ov') \<Rightarrow> tryOptions call sel args ys t' ov'
      | Throws e \<Rightarrow> Throws e
      | Overflows \<Rightarrow> Overflows)"
  by (induction xs arbitrary: t ov) (auto split: outcome.splits)

lemma tryOptions_resolved:
  assumes "tryOptions call sel args xs t ov = Returns (t', ov')"
    and "\<And>ov x ms ov' m. call ov (args(propertyKey (r_name sel) \<mapsto> x)) = Returns (Some ms, ov') \<Longrightarrow>
           m \<in> set ms \<Longrightarrow> Q m"
    and "\<forall>m \<in> set (resolvedSelections t). Q m"
  shows "\<forall>m \<in> set (resolvedSelections t'). Q m"
  using assms(1,3)
proof (induction xs arbitrary: t ov)
  case Nil
  then show ?case by simp
next
  case (Cons x xs)
  then obtain sub ov2 where
    c: "call ov (args(propertyKey (r_name sel) \<mapsto> x)) = Returns (sub, ov2)" and
    r: "tryOptions call sel args xs (tryOption sel x sub t) ov2 = Returns (t', ov')"
    by (auto split: outcome.splits)
  have "\<forall>m \<in> set (resolvedSelections (tryOption sel x sub t)). Q m"
  proof (cases sub)
    case None
    with Cons.prems(2) show ?thesis by (simp add: tryOption_def)
  next
    case (Some ms)
    with c assms(2) have "\<forall>m \<in> set ms. Q m" by blast
    with Some Cons.prems(2) show ?thesis by (auto simp: tryOption_def)
  qed
  from Cons.IH [OF r this] show ?case .
qed

lemma index_selectionRef: "index (selectionRef own i sel) = i"
  by (simp add: selectionRef_def)

lemma afterLoop_moves:
  "afterLoop a args i own sel t ov = (Some ms, ov') \<Longrightarrow>
   ms = resolvedSelections t \<or>
   (\<exists>ref. ms = [\<lparr> pm_action = a_name a, pm_args = args, pm_selection = ref \<rparr>] \<and> index ref = i)"
  by (auto simp: afterLoop_def Let_def index_selectionRef split: if_splits)

text \<open>
  Every pending move that the resolution returns extends the record it was called on,
  and presents a selection of the action whose name is no property of the move's
  record.
\<close>

lemma getRS_moves_open:
  "getResolvedSelections fuel a ov args = Returns (Some ms, ov') \<Longrightarrow> m \<in> set ms \<Longrightarrow>
   (\<forall>k. hasProperty k args \<longrightarrow> hasProperty k (pm_args m)) \<and>
   index (pm_selection m) < length (selections a) \<and>
   \<not> hasProperty (propertyKey (sel_name (selections a ! index (pm_selection m)))) (pm_args m)"
proof (induction fuel arbitrary: ov args ms ov' m)
  case 0
  then show ?case by simp
next
  case (Suc fuel)
  let ?Q = "\<lambda>m. (\<forall>k. hasProperty k args \<longrightarrow> hasProperty k (pm_args m)) \<and>
     index (pm_selection m) < length (selections a) \<and>
     \<not> hasProperty (propertyKey (sel_name (selections a ! index (pm_selection m)))) (pm_args m)"
  show ?case
  proof (cases "nextSelection a ov args")
    case (Inl e)
    with Suc.prems show ?thesis by simp
  next
    case (Inr found)
    show ?thesis
    proof (cases found)
      case None
      with Inr Suc.prems show ?thesis by simp
    next
      case (Some triple)
      obtain i own sel where t: "triple = (i, own, sel)" by (cases triple) auto
      from Inr Some t have n: "nextSelection a ov args = Inr (Some (i, own, sel))" by simp
      note facts = nextSelection_Some(1,2) [OF n]
      show ?thesis
      proof (cases "isPossible sel \<and> \<not> isUnbounded sel")
        case False
        with n Suc.prems facts show ?thesis
          by (auto simp: index_selectionRef split: if_splits)
      next
        case True
        with Suc.prems(1) n obtain t' ov2 where
          l: "tryOptions (getResolvedSelections fuel a) sel args (options sel) (startTally sel) ov
                = Returns (t', ov2)" and
          r: "afterLoop a args i own sel t' ov2 = (Some ms, ov')"
          by (auto split: outcome.splits)
        have "\<forall>m \<in> set (resolvedSelections t'). ?Q m"
        proof (rule tryOptions_resolved [OF l])
          fix ov x ms ov' m
          assume "getResolvedSelections fuel a ov (args(propertyKey (r_name sel) \<mapsto> x))
                    = Returns (Some ms, ov')" and "m \<in> set ms"
          from Suc.IH [OF this] show "?Q m" by (simp add: hasProperty_update del: fun_upd_apply)
        next
          show "\<forall>m \<in> set (resolvedSelections (startTally sel)). ?Q m"
            by (simp add: startTally_def)
        qed
        with afterLoop_moves [OF r] Suc.prems(2) facts show ?thesis by auto
      qed
    qed
  qed
qed

text \<open>
  The loop when exactly one option survives: the options before it and after it are
  infeasible, each on the store as the loop has it then.
\<close>

lemma tryOptions_one_survivor:
  assumes "\<forall>x \<in> set pre. \<exists>ov'. getResolvedSelections fuel a ov
               (args(propertyKey (r_name sel) \<mapsto> x)) = Returns (None, ov')"
    and "getResolvedSelections fuel a ov (args(propertyKey (r_name sel) \<mapsto> option))
           = Returns (Some sub, ov1)"
    and "\<forall>x \<in> set post. \<exists>ov'. getResolvedSelections fuel a ov1
               (args(propertyKey (r_name sel) \<mapsto> x)) = Returns (None, ov')"
  shows "tryOptions (getResolvedSelections fuel a) sel args (pre @ option # post)
           (startTally sel) ov =
         Returns (\<lparr> possibleOptions = [option], pruned = (pre \<noteq> [] \<or> post \<noteq> []),
                    resolvedSelections = sub,
                    mayExpand = (if r_expand sel \<and> sub = [] then False else r_expand sel) \<rparr>,
                  ov1)"
proof -
  let ?call = "getResolvedSelections fuel a"
  have keep: "\<And>ov args ov'. ?call ov args = Returns (None, ov') \<Longrightarrow> ov' = ov"
    by (rule getRS_None_store)
  let ?t1 = "if pre = [] then startTally sel else (startTally sel)\<lparr>pruned := True\<rparr>"
  have 1: "tryOptions ?call sel args pre (startTally sel) ov = Returns (?t1, ov)"
    using tryOptions_dead [where call = ?call and sel = sel and args = args and xs = pre
            and ov = ov and t = "startTally sel"] keep assms(1)
    by blast
  let ?t2 = "tryOption sel option (Some sub) ?t1"
  have 2: "tryOptions ?call sel args post ?t2 ov1 =
             Returns (if post = [] then ?t2 else ?t2\<lparr>pruned := True\<rparr>, ov1)"
    using tryOptions_dead [where call = ?call and sel = sel and args = args and xs = post
            and ov = ov1 and t = ?t2] keep assms(3)
    by blast
  show ?thesis
    using 1 2 assms(2)
    by (simp add: tryOptions_append tryOption_def startTally_def del: fun_upd_apply)
qed

section \<open>Evaluation\<close>

lemmas eval_defs =
  nextSelection_def resolve_def contents_def current_def isResolved_def isPossible_def
  isUnbounded_def isMulti_def options_def minOr1_def range_incl_def combinations_def
  startTally_def tryOption_def afterLoop_def overrideOptions_def selectionRef_def
  hasProperty_def objectPrototype_def propertyKey_def newSelection_def selectFromChoices_def
  selectNumber_def selectOnBoard_def named_def chosen_def timesOf_def Let_def upto.simps

lemma isUnbounded_isPossible: "isUnbounded this \<Longrightarrow> isPossible this"
  by (auto simp: isUnbounded_def isPossible_def Let_def split: if_splits option.splits)

text \<open>
  Where the selection \<open>m\<close> of \<open>dependent\<close> is the next one, the resolution overflows
  whatever the fuel: the copy that \<^verbatim>\<open>resolve\<close> makes of it has no name, so its first
  option is stored under \<^verbatim>\<open>'undefined'\<close>, and in the recursive call \<^verbatim>\<open>'m' in args\<close> fails
  again. The same holds of the selection \<open>amount\<close> of \<open>scenarioC\<close>.
\<close>

lemma dependent_overflows:
  "args ''n'' = Some (Num 1) \<Longrightarrow> args ''m'' = None \<Longrightarrow>
   getResolvedSelections fuel dependent Map.empty args = Overflows"
proof (induction fuel arbitrary: args)
  case 0
  then show ?case by simp
next
  case (Suc fuel)
  have "getResolvedSelections fuel dependent Map.empty (args(''undefined'' \<mapsto> Num 1)) = Overflows"
    using Suc.prems by (intro Suc.IH) simp_all
  with Suc.prems show ?case
    by (simp add: dependent_def eval_defs)
qed


section \<open>The claims\<close>

subsection \<open>C1: an invalid argument\<close>


subsection \<open>C2: the three outcomes of the resolution\<close>

text \<open>
  C2 does not hold of the code. For the action of the repository's tests, with its
  Selections named \<open>n\<close> and \<open>m\<close> and the record \<^verbatim>\<open>{n: 1}\<close>, \<^verbatim>\<open>_getResolvedSelections\<close> has none
  of the three outcomes: it overflows whatever the depth allowed, because the copy that
  \<^verbatim>\<open>resolve\<close> makes of \<open>m\<close> has lost the name. With the two Selections as the constructor
  leaves them, without names, it returns the empty list on the record that holds the
  first number only, and \<open>m\<close> has not been chosen. And for a selection named
  \<^verbatim>\<open>'toString'\<close> it returns the empty list on the empty record, where the selection has
  no value and is not skipped: \<^verbatim>\<open>s.name in args\<close> holds of what the record inherits.
\<close>

theorem getResolvedSelections_misses_the_three_outcomes:
  "getResolvedSelections fuel dependent Map.empty [''n'' \<mapsto> Num 1] = Overflows \<and>
   getResolvedSelections (Suc fuel) dependentUnnamed Map.empty [''undefined'' \<mapsto> Num 1] =
     Returns (Some [], Map.empty) \<and>
   sel_skipIf (selections toStringChoice ! 0) = None \<and>
   getResolvedSelections (Suc fuel) toStringChoice Map.empty Map.empty =
     Returns (Some [], Map.empty)"
proof (intro conjI)
  show "getResolvedSelections fuel dependent Map.empty [''n'' \<mapsto> Num 1] = Overflows"
    by (rule dependent_overflows) simp_all
qed (simp_all add: toStringChoice_def dependentUnnamed_def eval_defs)

subsection \<open>C3: a selection with one value\<close>

text \<open>
  C3, as stated, fails for a final selection: the action whose only selection has the
  single choice 1, with \<^verbatim>\<open>skipIfOnlyOne\<close> true, resolves to one pending move, which
  presents that selection.
\<close>

theorem skipIfOnlyOne_final_selection_counterexample:
  "r_skipIfOnlyOne (contents (selections onlyChoice ! 0) []) \<and>
   options (contents (selections onlyChoice ! 0) []) = [Num 1] \<and>
   getResolvedSelections (Suc (Suc 0)) onlyChoice Map.empty Map.empty =
     Returns (Some [\<lparr> pm_action = ''pick'', pm_args = Map.empty, pm_selection = Own 0 \<rparr>], Map.empty)"
  by (simp add: onlyChoice_def eval_defs)

text \<open>
  C3, amended. Let the next selection be possible and bounded, with \<^verbatim>\<open>skipIfOnlyOne\<close>
  true, and let exactly one of its options survive: the recursive call returns the
  pending moves \<open>sub\<close> for \<open>option\<close> and is infeasible for every option before and after
  it. If the selection is not a board selection and \<open>sub\<close> is not empty, the resolution
  returns exactly \<open>sub\<close>; and none of these moves presents that selection, provided the
  key its value is stored under is the key it is looked up by (as it is when the
  selection has no function field, or no name). If \<open>sub\<close> is empty, the selection is the
  final one and is returned as the single pending move; so is a board selection,
  narrowed to the surviving option when another option was pruned and it is not
  multi-valued.
\<close>

theorem skipIfOnlyOne_single_survivor:
  assumes "nextSelection a ov args = Inr (Some (i, own, sel))"
    and "isPossible sel" and "\<not> isUnbounded sel" and "r_skipIfOnlyOne sel"
    and "options sel = pre @ option # post"
    and "\<forall>x \<in> set pre. \<exists>ov'. getResolvedSelections fuel a ov
               (args(propertyKey (r_name sel) \<mapsto> x)) = Returns (None, ov')"
    and "getResolvedSelections fuel a ov (args(propertyKey (r_name sel) \<mapsto> option))
           = Returns (Some sub, ov1)"
    and "\<forall>x \<in> set post. \<exists>ov'. getResolvedSelections fuel a ov1
               (args(propertyKey (r_name sel) \<mapsto> x)) = Returns (None, ov')"
  shows
    "(r_type sel \<noteq> Board \<and> sub \<noteq> [] \<longrightarrow>
        getResolvedSelections (Suc fuel) a ov args = Returns (Some sub, ov1) \<and>
        (propertyKey (r_name sel) = propertyKey (sel_name (selections a ! i)) \<longrightarrow>
           (\<forall>m \<in> set sub. index (pm_selection m) \<noteq> i))) \<and>
     (r_type sel \<noteq> Board \<and> sub = [] \<longrightarrow>
        getResolvedSelections (Suc fuel) a ov args =
          Returns (Some [\<lparr> pm_action = a_name a, pm_args = args,
                            pm_selection = (if own then Own i else Copy i sel) \<rparr>], ov1)) \<and>
     (r_type sel = Board \<longrightarrow>
        getResolvedSelections (Suc fuel) a ov args =
          (let narrows = ((pre \<noteq> [] \<or> post \<noteq> []) \<and> \<not> isMulti sel);
               sel' = (if narrows then sel\<lparr>r_boardChoices := Some (Elements [option])\<rparr> else sel)
           in Returns (Some [\<lparr> pm_action = a_name a, pm_args = args,
                               pm_selection = (if own then Own i else Copy i sel') \<rparr>],
                       if narrows \<and> own then ov1(i \<mapsto> [option]) else ov1)))"
proof -
  note loop = tryOptions_one_survivor [OF assms(6,7,8)]
  have run: "getResolvedSelections (Suc fuel) a ov args =
          Returns (afterLoop a args i own sel
            \<lparr> possibleOptions = [option], pruned = (pre \<noteq> [] \<or> post \<noteq> []),
              resolvedSelections = sub,
              mayExpand = (if r_expand sel \<and> sub = [] then False else r_expand sel) \<rparr> ov1)"
    using assms(1,2,3,5) loop by simp
  have fresh: "index (pm_selection m) \<noteq> i"
    if "propertyKey (r_name sel) = propertyKey (sel_name (selections a ! i))" and "m \<in> set sub"
    for m
  proof
    assume "index (pm_selection m) = i"
    with getRS_moves_open [OF assms(7) that(2)] that(1)
    show False by (auto simp: hasProperty_update simp del: fun_upd_apply)
  qed
  show ?thesis
    using run assms(4) fresh
    by (auto simp: afterLoop_def overrideOptions_def selectionRef_def Let_def)
qed

theorem skipIfOnlyOne_single_survivor_witness:
  "getResolvedSelections (Suc (Suc (Suc 0))) skipsChoice Map.empty Map.empty =
     Returns (Some [\<lparr> pm_action = ''pick'', pm_args = [''a'' \<mapsto> Num 1],
                       pm_selection = Copy 1 (numberBetween (Some 1) (Some 2)) \<rparr>], Map.empty) \<and>
   index (Copy 1 (numberBetween (Some 1) (Some 2))) \<noteq> 0 \<and>
   getResolvedSelections (Suc (Suc (Suc 0))) skipsBoard Map.empty Map.empty =
     Returns (Some [\<lparr> pm_action = ''pick'', pm_args = Map.empty, pm_selection = Own 0 \<rparr>],
              [0 \<mapsto> [Elem 1]])"
proof -
  let ?c = "contents (selections skipsChoice ! 0) [Obj Map.empty]"
  let ?b = "contents (selections skipsBoard ! 0) [Obj Map.empty]"
  let ?m = "\<lparr> pm_action = ''pick'', pm_args = [''a'' \<mapsto> Num 1],
              pm_selection = Copy 1 (numberBetween (Some 1) (Some 2)) \<rparr>"
  let ?n = "\<lparr> pm_action = ''pick'', pm_args = [''a'' \<mapsto> Elem 1],
              pm_selection = Copy 1 (numberBetween (Some 1) (Some 2)) \<rparr>"
  have c: "nextSelection skipsChoice Map.empty Map.empty = Inr (Some (0, True, ?c))"
      "isPossible ?c" "\<not> isUnbounded ?c" "r_skipIfOnlyOne ?c"
      "options ?c = [] @ Num 1 # [Num 3]" "r_type ?c \<noteq> Board"
      "propertyKey (r_name ?c) = propertyKey (sel_name (selections skipsChoice ! 0))"
      "\<forall>x \<in> set []. \<exists>ov'. getResolvedSelections (Suc (Suc 0)) skipsChoice Map.empty
               (Map.empty(propertyKey (r_name ?c) \<mapsto> x)) = Returns (None, ov')"
      "getResolvedSelections (Suc (Suc 0)) skipsChoice Map.empty
         (Map.empty(propertyKey (r_name ?c) \<mapsto> Num 1)) = Returns (Some [?m], Map.empty)"
      "\<forall>x \<in> set [Num 3]. \<exists>ov'. getResolvedSelections (Suc (Suc 0)) skipsChoice Map.empty
               (Map.empty(propertyKey (r_name ?c) \<mapsto> x)) = Returns (None, ov')"
    by (simp_all add: skipsChoice_def numberBetween_def eval_defs)
  have b: "nextSelection skipsBoard Map.empty Map.empty = Inr (Some (0, True, ?b))"
      "isPossible ?b" "\<not> isUnbounded ?b" "r_skipIfOnlyOne ?b"
      "options ?b = [] @ Elem 1 # [Elem 3]" "r_type ?b = Board" "\<not> isMulti ?b"
      "a_name skipsBoard = ''pick''"
      "\<forall>x \<in> set []. \<exists>ov'. getResolvedSelections (Suc (Suc 0)) skipsBoard Map.empty
               (Map.empty(propertyKey (r_name ?b) \<mapsto> x)) = Returns (None, ov')"
      "getResolvedSelections (Suc (Suc 0)) skipsBoard Map.empty
         (Map.empty(propertyKey (r_name ?b) \<mapsto> Elem 1)) = Returns (Some [?n], Map.empty)"
      "\<forall>x \<in> set [Elem 3]. \<exists>ov'. getResolvedSelections (Suc (Suc 0)) skipsBoard Map.empty
               (Map.empty(propertyKey (r_name ?b) \<mapsto> x)) = Returns (None, ov')"
    by (simp_all add: skipsBoard_def numberBetween_def elementNumber_def eval_defs)
  have 1: "getResolvedSelections (Suc (Suc (Suc 0))) skipsChoice Map.empty Map.empty =
             Returns (Some [?m], Map.empty) \<and>
           index (Copy 1 (numberBetween (Some 1) (Some 2))) \<noteq> 0"
    using skipIfOnlyOne_single_survivor [OF c(1,2,3,4,5,8,9,10)] c(6,7)
    by (simp del: getResolvedSelections.simps)
  have 2: "getResolvedSelections (Suc (Suc (Suc 0))) skipsBoard Map.empty Map.empty =
             Returns (Some [\<lparr> pm_action = ''pick'', pm_args = Map.empty, pm_selection = Own 0 \<rparr>],
                      [0 \<mapsto> [Elem 1]])"
    using skipIfOnlyOne_single_survivor [OF b(1,2,3,4,5,9,10,11)] b(6,7,8)
    by (simp del: getResolvedSelections.simps)
  from 1 2 show ?thesis by simp
qed

subsection \<open>C4: scenario C\<close>


subsection \<open>C5: number selections and unbounded selections\<close>

text \<open>
  C5, as stated, fails at the boundary: the range from 1 to 101 holds 101 values, more
  than 100, and the selection is not unbounded; \<^verbatim>\<open>options()\<close> enumerates all 101.
\<close>

theorem number_range_of_101_values_counterexample:
  "r_type numberOneTo101 = Number \<and> r_min numberOneTo101 = Some 1 \<and>
   r_max numberOneTo101 = Some 101 \<and>
   \<not> isUnbounded numberOneTo101 \<and> length (options numberOneTo101) = 101"
  by (simp add: numberOneTo101_def numberBetween_def isUnbounded_def options_def minOr1_def
        range_incl_def)

text \<open>
  C5, amended. For a resolved number selection, \<^verbatim>\<open>isUnbounded()\<close> holds exactly when
  \<^verbatim>\<open>max\<close> is unset or \<^verbatim>\<open>max - min\<close> exceeds 100 (a range of more than 101 values), with
  \<^verbatim>\<open>min\<close> defaulting to 1; otherwise \<^verbatim>\<open>options()\<close> is the inclusive range from \<^verbatim>\<open>min\<close> to
  \<^verbatim>\<open>max\<close>. Text and button selections are always unbounded. An unbounded selection
  has no options, and the resolution returns it as the single pending move, without
  a recursive call (at any depth allowed) and without touching the store.
\<close>

theorem number_options_and_unbounded:
  "(r_type this = Number \<longrightarrow>
      isUnbounded this = (case r_max this of None \<Rightarrow> True | Some mx \<Rightarrow> mx - minOr1 this > 100)) \<and>
   (\<forall>mx. r_type this = Number \<and> r_max this = Some mx \<and> \<not> isUnbounded this \<longrightarrow>
      options this = map Num [minOr1 this .. mx]) \<and>
   minOr1 this = (case r_min this of None \<Rightarrow> 1 | Some m \<Rightarrow> m) \<and>
   (r_type this = Text \<or> r_type this = Button \<longrightarrow> isUnbounded this) \<and>
   (isUnbounded this \<longrightarrow> options this = []) \<and>
   (\<forall>i own. nextSelection a ov args = Inr (Some (i, own, this)) \<and> isUnbounded this \<longrightarrow>
      getResolvedSelections (Suc fuel) a ov args =
        Returns (Some [\<lparr> pm_action = a_name a, pm_args = args,
                          pm_selection = (if own then Own i else Copy i this) \<rparr>], ov))"
proof (intro conjI allI impI)
  show "isUnbounded this = (case r_max this of None \<Rightarrow> True | Some mx \<Rightarrow> mx - minOr1 this > 100)"
    if "r_type this = Number"
    using that by (simp add: isUnbounded_def)
  show "options this = map Num [minOr1 this .. mx]"
    if "r_type this = Number \<and> r_max this = Some mx \<and> \<not> isUnbounded this" for mx
    using that by (simp add: options_def range_incl_def)
  show "minOr1 this = (case r_min this of None \<Rightarrow> 1 | Some m \<Rightarrow> m)"
    by (simp add: minOr1_def)
  show "isUnbounded this" if "r_type this = Text \<or> r_type this = Button"
    using that by (auto simp: isUnbounded_def)
  show "options this = []" if "isUnbounded this"
    using that by (simp add: options_def)
  show "getResolvedSelections (Suc fuel) a ov args =
        Returns (Some [\<lparr> pm_action = a_name a, pm_args = args,
                          pm_selection = (if own then Own i else Copy i this) \<rparr>], ov)"
    if "nextSelection a ov args = Inr (Some (i, own, this)) \<and> isUnbounded this" for i own
    using that by (simp add: isUnbounded_isPossible selectionRef_def)
qed

theorem number_options_and_unbounded_witness:
  "isUnbounded (contents (selections unboundedFirst ! 0) []) \<and>
   options (contents (selections unboundedFirst ! 0) []) = [] \<and>
   getResolvedSelections (Suc 0) unboundedFirst Map.empty Map.empty =
     Returns (Some [\<lparr> pm_action = ''pick'', pm_args = Map.empty, pm_selection = Own 0 \<rparr>],
              Map.empty) \<and>
   \<not> isUnbounded (numberBetween None (Some 3)) \<and>
   options (numberBetween None (Some 3)) = [Num 1, Num 2, Num 3] \<and>
   \<not> isUnbounded numberOneTo101 \<and>
   isUnbounded (numberOneTo101\<lparr>r_max := Some 102\<rparr>) \<and>
   options (numberOneTo101\<lparr>r_max := Some 102\<rparr>) = []"
proof -
  let ?n = "contents (selections unboundedFirst ! 0) []"
  have 1: "nextSelection unboundedFirst Map.empty Map.empty = Inr (Some (0, True, ?n))"
    by (simp add: unboundedFirst_def eval_defs)
  have 2: "r_type ?n = Number" "r_max ?n = None" "a_name unboundedFirst = ''pick''"
    by (simp_all add: unboundedFirst_def eval_defs)
  have 3: "r_type (numberBetween None (Some 3)) = Number"
          "r_max (numberBetween None (Some 3)) = Some 3"
          "r_min (numberBetween None (Some 3)) = None"
    by (simp_all add: numberBetween_def)
  have 4: "r_type numberOneTo101 = Number" "r_max numberOneTo101 = Some 101"
          "r_min numberOneTo101 = Some 1"
    by (simp_all add: numberOneTo101_def numberBetween_def)
  have a: "isUnbounded ?n \<and> options ?n = [] \<and>
           getResolvedSelections (Suc 0) unboundedFirst Map.empty Map.empty =
             Returns (Some [\<lparr> pm_action = ''pick'', pm_args = Map.empty, pm_selection = Own 0 \<rparr>],
                      Map.empty)"
    using number_options_and_unbounded [of ?n unboundedFirst Map.empty Map.empty 0] 1 2
    by (auto simp del: getResolvedSelections.simps)
  have b: "\<not> isUnbounded (numberBetween None (Some 3)) \<and>
           options (numberBetween None (Some 3)) = [Num 1, Num 2, Num 3]"
    using number_options_and_unbounded
            [of "numberBetween None (Some 3)" unboundedFirst Map.empty Map.empty 0] 3
    by (simp add: upto.simps)
  have c: "\<not> isUnbounded numberOneTo101"
    using number_options_and_unbounded [of numberOneTo101 unboundedFirst Map.empty Map.empty 0] 4
    by simp
  have d: "isUnbounded (numberOneTo101\<lparr>r_max := Some 102\<rparr>) \<and>
           options (numberOneTo101\<lparr>r_max := Some 102\<rparr>) = []"
    using number_options_and_unbounded
            [of "numberOneTo101\<lparr>r_max := Some 102\<rparr>" unboundedFirst Map.empty Map.empty 0] 4
    by simp
  from a b c d show ?thesis by simp
qed

subsection \<open>C6: a complete and valid move\<close>

text \<open>
  C6 does not hold of the code. For the action without selections whose second
  behaviour throws a string, \<^verbatim>\<open>_process\<close> catches the string and returns its \<^verbatim>\<open>message\<close>,
  which a string does not have: it returns \<^verbatim>\<open>undefined\<close>, as it does for a move that was
  applied, with the state as the first two behaviours left it. And for the action with a
  number from 0 to 3 and the record \<^verbatim>\<open>{n: 2}\<close>, which is valid and complete, \<^verbatim>\<open>_process\<close>
  throws a \<^verbatim>\<open>TypeError\<close> out of \<^verbatim>\<open>validate\<close> and runs none of the three behaviours.
\<close>

theorem process_of_a_complete_and_valid_move:
  "process stringIncludes (Suc fuel) throwsString Map.empty Map.empty [] = (Returns None, [1, 2]) \<and>
   validate stringIncludes (selections countTo3 ! 0) (Some (Num 2)) (Some []) = Inr None \<and>
   getResolvedSelections (Suc fuel) countTo3 Map.empty [''n'' \<mapsto> Num 2] =
     Returns (Some [], Map.empty) \<and>
   process stringIncludes fuel countTo3 Map.empty [''n'' \<mapsto> Num 2] [] = (Throws TypeError, [])"
  by (simp add: process_def validate_def countTo3_def throwsString_def logCall_def
        logThenThrow_def eval_defs)

subsection \<open>C7: narrowing a selection to the options that survive\<close>

text \<open>
  C7 does not hold of the code for a choices selection. \<^verbatim>\<open>overrideOptions\<close> leaves a
  selection of that kind as it is, whatever the options, and returns a new Selection,
  which \<^verbatim>\<open>_getResolvedSelections\<close> drops. For the choice among 1, 2 and 3 followed by a
  number from the value chosen up to 2, the branch of 3 is infeasible and is pruned, and
  the pending move returned presents the action's own selection, whose choices are
  still 1, 2 and 3. The same action over three board elements returns the selection
  narrowed to the two elements that survive.
\<close>

theorem pruned_choice_is_still_offered:
  "fst (overrideOptions (this\<lparr>r_type := Choices\<rparr>) opts) = this\<lparr>r_type := Choices\<rparr> \<and>
   getResolvedSelections (Suc (Suc fuel)) prunedChoice Map.empty [''a'' \<mapsto> Num 3] =
     Returns (None, Map.empty) \<and>
   getResolvedSelections (Suc (Suc (Suc fuel))) prunedChoice Map.empty Map.empty =
     Returns (Some [\<lparr> pm_action = ''x'', pm_args = Map.empty, pm_selection = Own 0 \<rparr>], Map.empty) \<and>
   r_choices (shown prunedChoice Map.empty (Own 0)) = Some (ChoiceList [Num 1, Num 2, Num 3]) \<and>
   getResolvedSelections (Suc (Suc (Suc fuel))) prunedBoard Map.empty Map.empty =
     Returns (Some [\<lparr> pm_action = ''x'', pm_args = Map.empty, pm_selection = Own 0 \<rparr>],
              [0 \<mapsto> [Elem 1, Elem 2]]) \<and>
   r_boardChoices (shown prunedBoard [0 \<mapsto> [Elem 1, Elem 2]] (Own 0)) =
     Some (Elements [Elem 1, Elem 2])"
  by (simp add: prunedChoice_def prunedBoard_def shown_def elementNumber_def eval_defs)

subsection \<open>C8: what validate throws\<close>




subsection \<open>C9: the actions offered to a player\<close>


subsection \<open>C10: the player context around a function\<close>

text \<open>
  C10. \<^verbatim>\<open>inContextOfPlayer(player, fn)\<close> runs \<open>fn\<close> with the board's context set to
  \<open>player\<close>. When \<open>fn\<close> returns, the context is set back to the value it had before the
  call, everything else is as \<open>fn\<close> left it, and the result of \<open>fn\<close> is returned. When
  \<open>fn\<close> throws, the exception leaves \<^verbatim>\<open>inContextOfPlayer\<close> with the state exactly as \<open>fn\<close>
  left it: nothing is restored, so the context is still \<open>player\<close> unless \<open>fn\<close> itself
  changed it.
\<close>

theorem inContextOfPlayer_restores_only_on_return:
  assumes "fn (g\<lparr>ctx_player := Some player\<rparr>) = (res, g')"
  shows "(\<forall>r. res = Inr r \<longrightarrow>
            inContextOfPlayer player fn g = (Inr r, g'\<lparr>ctx_player := ctx_player g\<rparr>)) \<and>
         (\<forall>e. res = Inl e \<longrightarrow>
            inContextOfPlayer player fn g = (Inl e, g') \<and>
            (ctx_player g' = Some player \<longrightarrow>
               ctx_player (snd (inContextOfPlayer player fn g)) = Some player))"
  using assms by (auto simp: inContextOfPlayer_def contextualizeBoardToPlayer_def)

theorem inContextOfPlayer_restores_only_on_return_witness:
  "inContextOfPlayer 2 (\<lambda>g. (Inr (7::nat), g)) \<lparr>ctx_player = Some 1\<rparr>
     = (Inr (7::nat), \<lparr>ctx_player = Some 1\<rparr>) \<and>
   inContextOfPlayer 2 (\<lambda>g. (Inl (Error ''failed'') :: error + nat, g)) \<lparr>ctx_player = Some 1\<rparr>
     = (Inl (Error ''failed''), \<lparr>ctx_player = Some 2\<rparr>) \<and>
   ctx_player (snd (inContextOfPlayer 2 (\<lambda>g. (Inl (Error ''failed'') :: error + nat, g))
                      \<lparr>ctx_player = Some 1\<rparr>)) = Some 2"
  using inContextOfPlayer_restores_only_on_return
          [where fn = "\<lambda>g. (Inr (7::nat), g)" and g = "\<lparr>ctx_player = Some 1\<rparr>" and player = 2
             and res = "Inr (7::nat)" and g' = "\<lparr>ctx_player = Some 2\<rparr>"]
        inContextOfPlayer_restores_only_on_return
          [where fn = "\<lambda>g. (Inl (Error ''failed'') :: error + nat, g)"
             and g = "\<lparr>ctx_player = Some 1\<rparr>" and player = 2
             and res = "Inl (Error ''failed'')" and g' = "\<lparr>ctx_player = Some 2\<rparr>"]
  by simp

end
